theory Spec2Isabelle
  imports Complex_Main "HOL-Library.Sublist"
begin

section \<open>Strings and Unicode sanitisation\<close>

text \<open>
  A Python \<^verbatim>\<open>str\<close> is a sequence of Unicode code points, so it is modelled as a list of
  natural numbers (one number per code point), not as a list of 8-bit characters.
\<close>

type_synonym ustr = "nat list"

text \<open>
  \<^verbatim>\<open>text.replace(unicode_char, ascii_replacement)\<close> where the pattern is a single code
  point (every key of \<^verbatim>\<open>unicode_replacements\<close> is one): every occurrence of the code point
  is replaced, left to right, everything else is kept.
\<close>

definition replace_char :: "nat \<Rightarrow> ustr \<Rightarrow> ustr \<Rightarrow> ustr" where
  "replace_char old new t = concat (map (\<lambda>c. if c = old then new else [c]) t)"

text \<open>
  The dictionary \<^verbatim>\<open>unicode_replacements\<close> of \<^verbatim>\<open>sanitize_unicode_for_pdf\<close>, in insertion
  order (the order a Python dict iterates in): left and right double quotation marks,
  left and right single quotation marks, em dash, en dash, horizontal ellipsis,
  non-breaking space.
\<close>

definition unicode_replacements :: "(nat \<times> ustr) list" where
  "unicode_replacements =
     [(8220, [34]), (8221, [34]), (8216, [39]), (8217, [39]),
      (8212, [45, 45]), (8211, [45]), (8230, [46, 46, 46]), (160, [32])]"

text \<open>The value \<^verbatim>\<open>sanitize_unicode_for_pdf\<close> returns.\<close>

definition sanitize_unicode_for_pdf :: "ustr \<Rightarrow> ustr" where
  "sanitize_unicode_for_pdf text =
     (if text = [] then text
      else foldl (\<lambda>t (unicode_char, ascii_replacement).
                    replace_char unicode_char ascii_replacement t)
             text unicode_replacements)"

text \<open>
  The log records of the module. \<^verbatim>\<open>sanitize_unicode_for_pdf\<close> writes one debug record when
  the text changed and at least one key occurs in the original text.
\<close>

datatype log_event =
    DebugSanitized "(nat \<times> ustr) list"
  | DebugNoMatch ustr
  | InfoFontMapping ustr ustr
  | DebugEmbedFailed ustr

definition sanitize_log :: "ustr \<Rightarrow> log_event list" where
  "sanitize_log original_text =
     (if original_text = [] then []
      else if sanitize_unicode_for_pdf original_text \<noteq> original_text then
        (let replaced_chars =
               filter (\<lambda>(unicode_char, ascii_replacement). unicode_char \<in> set original_text)
                 unicode_replacements
         in if replaced_chars \<noteq> [] then [DebugSanitized replaced_chars] else [])
      else [])"

text \<open>
  The specification's reading of the sanitiser: the eight mapped code points, and the
  ASCII text each one stands for; every other code point stands for itself.
\<close>

definition mapped_code_points :: "nat set" where
  "mapped_code_points = {8220, 8221, 8216, 8217, 8212, 8211, 8230, 160}"

definition ascii_equivalent :: "nat \<Rightarrow> ustr" where
  "ascii_equivalent c =
     (if c = 8220 then [34] else if c = 8221 then [34]
      else if c = 8216 then [39] else if c = 8217 then [39]
      else if c = 8212 then [45, 45] else if c = 8211 then [45]
      else if c = 8230 then [46, 46, 46] else if c = 160 then [32]
      else [c])"

text \<open>The loop of the sanitiser on its own: all eight replacements, in order.\<close>

definition replace_all_keys :: "ustr \<Rightarrow> ustr" where
  "replace_all_keys t =
     foldl (\<lambda>t (unicode_char, ascii_replacement).
              replace_char unicode_char ascii_replacement t)
       t unicode_replacements"

section \<open>Geometry\<close>

text \<open>
  Coordinates, sizes and positions are Python floats; they are modelled as real numbers
  (comparisons are exact in both; the rounding of sums and products is not modelled).
\<close>

record rect =
  x0 :: real
  y0 :: real
  x1 :: real
  y1 :: real

text \<open>
  Modelled from the spec: the rendering library's rectangle union (\<^verbatim>\<open>union_rect |= r_sub\<close>),
  whose code is not part of the repository. The specification calls the result the bounding
  rectangle of the constituent rectangles of one occurrence.
\<close>

definition rect_or :: "rect \<Rightarrow> rect \<Rightarrow> rect" where
  "rect_or a b =
     \<lparr>x0 = min (x0 a) (x0 b), y0 = min (y0 a) (y0 b),
      x1 = max (x1 a) (x1 b), y1 = max (y1 a) (y1 b)\<rparr>"

section \<open>The page structures the rendering library reports\<close>

text \<open>The \<^verbatim>\<open>"dict"\<close> text structure: blocks (type 0 is text) of lines of spans.\<close>

record span =
  span_text :: ustr
  span_bbox :: rect

record line =
  line_bbox :: rect
  line_spans :: "span list"

record block =
  block_type :: nat
  block_lines :: "line list"

text \<open>
  The \<^verbatim>\<open>"rawdict"\<close> text structure: a span carries its font, size, colour and flags and,
  with a current library, the list \<^verbatim>\<open>chars\<close> of its characters (\<open>None\<close> stands for the
  key being absent, the older library's answer, which only has the span's whole text).
  The colour of a span is the packed integer \<^verbatim>\<open>0xRRGGBB\<close>.
\<close>

record raw_char =
  char_c :: nat
  char_bbox :: rect

record raw_span =
  rs_chars :: "raw_char list option"
  rs_text :: ustr
  rs_bbox :: rect
  rs_font :: ustr
  rs_size :: real
  rs_color :: int
  rs_flags :: nat

record glyph =
  g_c :: nat
  g_bbox :: rect
  g_font :: ustr
  g_size :: real
  g_color :: int
  g_flags :: nat

datatype font_source = FontName ustr | FontFile ustr

datatype py_error = ValueError string | FontError

text \<open>One entry of a text writer: position, character, font and size.\<close>

type_synonym 'f text_item = "real \<times> real \<times> nat \<times> 'f \<times> real"

text \<open>
  Everything the module calls but does not define is a parameter: the rendering library
  (over its own document type \<open>'d\<close> and font type \<open>'f\<close>), Python's \<^verbatim>\<open>str.lower\<close>, and
  \<^verbatim>\<open>get_available_font\<close> of the module \<^verbatim>\<open>font_manager\<close>, which returns a resolved name
  and a font path (or nothing). \<open>Font\<close> is the font constructor: \<open>None\<close> stands for the
  exception it raises when it cannot build the font. Pages are addressed by index.
\<close>

record ('d, 'f) pdf_lib =
  page_count :: "'d \<Rightarrow> nat"
  page_height :: "'d \<Rightarrow> nat \<Rightarrow> real"
  search_for :: "'d \<Rightarrow> nat \<Rightarrow> ustr \<Rightarrow> rect list"
  get_text_dict :: "'d \<Rightarrow> nat \<Rightarrow> block list"
  get_text_rawdict :: "'d \<Rightarrow> nat \<Rightarrow> raw_span list list list"
  intersects :: "rect \<Rightarrow> rect \<Rightarrow> bool"
  apply_redaction :: "'d \<Rightarrow> nat \<Rightarrow> rect \<Rightarrow> 'd"
  write_text :: "'d \<Rightarrow> nat \<Rightarrow> real \<times> real \<times> real \<Rightarrow> 'f text_item list \<Rightarrow> 'd"
  Font :: "font_source \<Rightarrow> 'f option"
  text_length :: "'f \<Rightarrow> nat \<Rightarrow> real \<Rightarrow> real"
  get_available_font :: "ustr \<Rightarrow> ustr \<times> ustr option"
  str_lower :: "ustr \<Rightarrow> ustr"

text \<open>ASCII text as code points, for the string constants of the source.\<close>

definition ustr_of :: "string \<Rightarrow> ustr" where
  "ustr_of s = map of_char s"

section \<open>Locating an occurrence\<close>

text \<open>
  The test \<^verbatim>\<open>position is None or global_y > position\<close> (and, negated,
  \<^verbatim>\<open>last_pos is not None and global_y <= last_pos\<close>).
\<close>

definition below :: "real option \<Rightarrow> real \<Rightarrow> bool" where
  "below position global_y = (case position of None \<Rightarrow> True | Some p \<Rightarrow> global_y > p)"

definition page_offset :: "('d, 'f) pdf_lib \<Rightarrow> 'd \<Rightarrow> nat \<Rightarrow> real" where
  "page_offset lib d page_index = real page_index * page_height lib d page_index"

text \<open>\<^verbatim>\<open>get_string_last_char_position_pdf\<close>: the inner loop over the rectangles of a page.\<close>

fun first_rect_below :: "real \<Rightarrow> real option \<Rightarrow> rect list \<Rightarrow> real option" where
  "first_rect_below off position [] = None"
| "first_rect_below off position (r # rs) =
     (let global_y = off + y1 r
      in if below position global_y then Some global_y
         else first_rect_below off position rs)"

text \<open>The outer loop over the pages.\<close>

fun position_in_pages ::
  "('d, 'f) pdf_lib \<Rightarrow> 'd \<Rightarrow> ustr \<Rightarrow> real option \<Rightarrow> nat list \<Rightarrow> real option" where
  "position_in_pages lib d s position [] = None"
| "position_in_pages lib d s position (page_index # rest) =
     (case first_rect_below (page_offset lib d page_index) position
             (search_for lib d page_index s) of
        Some global_y \<Rightarrow> Some global_y
      | None \<Rightarrow> position_in_pages lib d s position rest)"

definition get_string_last_char_position_pdf ::
  "('d, 'f) pdf_lib \<Rightarrow> 'd \<Rightarrow> ustr \<Rightarrow> real option \<Rightarrow> py_error + real option" where
  "get_string_last_char_position_pdf lib d s position =
     (if s = [] then Inl (ValueError ''Search string cannot be empty'')
      else Inr (position_in_pages lib d s position [0..<page_count lib d]))"

text \<open>\<^verbatim>\<open>search in line_text\<close>: the substring test.\<close>

fun contains :: "ustr \<Rightarrow> ustr \<Rightarrow> bool" where
  "contains s [] = (s = [])"
| "contains s (c # cs) = (prefix s (c # cs) \<or> contains s cs)"

text \<open>
  The loop over the spans of a line inside \<^verbatim>\<open>_replace_once\<close>, with its three variables
  \<^verbatim>\<open>search_start_x\<close>, \<^verbatim>\<open>search_end_x\<close> and \<^verbatim>\<open>accumulated_text\<close>; the result is the
  pair of the first two when the loop ends or breaks.
\<close>

fun scan_spans ::
  "ustr \<Rightarrow> real option \<Rightarrow> real option \<Rightarrow> ustr \<Rightarrow> span list \<Rightarrow> real option \<times> real option"
  where
  "scan_spans search search_start_x search_end_x accumulated_text [] =
     (search_start_x, search_end_x)"
| "scan_spans search search_start_x search_end_x accumulated_text (sp # sps) =
     (let start' = (if search_start_x = None \<and> prefix (accumulated_text @ span_text sp) search
                    then Some (x0 (span_bbox sp)) else search_start_x);
          acc' = accumulated_text @ span_text sp
      in if prefix search acc'
         then (if length acc' \<ge> length search then (start', Some (x1 (span_bbox sp)))
               else scan_spans search start' (Some (x1 (span_bbox sp))) acc' sps)
         else scan_spans search start' search_end_x acc' sps)"

text \<open>The loop over the lines of a text block: the first line that yields a rectangle.\<close>

fun scan_lines :: "ustr \<Rightarrow> real \<Rightarrow> real option \<Rightarrow> line list \<Rightarrow> rect option" where
  "scan_lines search off last_pos [] = None"
| "scan_lines search off last_pos (li # lis) =
     (if contains search (concat (map span_text (line_spans li)))
         \<and> below last_pos (off + y1 (line_bbox li))
      then (case scan_spans search None None [] (line_spans li) of
              (Some search_start_x, Some search_end_x) \<Rightarrow>
                Some \<lparr>x0 = search_start_x, y0 = y0 (line_bbox li),
                      x1 = search_end_x, y1 = y1 (line_bbox li)\<rparr>
            | _ \<Rightarrow> scan_lines search off last_pos lis)
      else scan_lines search off last_pos lis)"

fun scan_blocks :: "ustr \<Rightarrow> real \<Rightarrow> real option \<Rightarrow> block list \<Rightarrow> rect option" where
  "scan_blocks search off last_pos [] = None"
| "scan_blocks search off last_pos (b # bs) =
     (if block_type b \<noteq> 0 then scan_blocks search off last_pos bs
      else (case scan_lines search off last_pos (block_lines b) of
              Some r \<Rightarrow> Some r
            | None \<Rightarrow> scan_blocks search off last_pos bs))"

text \<open>
  The fallback: the first rectangle below \<^verbatim>\<open>last_pos\<close>, united with the rectangles that
  follow it while their vertical centre stays within 2 units of its vertical span.
\<close>

definition same_hit :: "rect \<Rightarrow> rect \<Rightarrow> bool" where
  "same_hit r follower =
     (let cy = (y0 follower + y1 follower) / 2
      in y0 r - 2 \<le> cy \<and> cy \<le> y1 r + 2)"

fun fallback_hit :: "real \<Rightarrow> real option \<Rightarrow> rect list \<Rightarrow> rect option" where
  "fallback_hit off last_pos [] = None"
| "fallback_hit off last_pos (r # rs) =
     (if \<not> below last_pos (off + y1 r) then fallback_hit off last_pos rs
      else Some (foldl rect_or r (takeWhile (same_hit r) rs)))"

text \<open>One iteration of the page loop of \<^verbatim>\<open>_replace_once\<close>.\<close>

definition locate_on_page ::
  "('d, 'f) pdf_lib \<Rightarrow> 'd \<Rightarrow> ustr \<Rightarrow> real option \<Rightarrow> nat \<Rightarrow> rect option" where
  "locate_on_page lib d search last_pos page_index =
     (let off = page_offset lib d page_index;
          rects = search_for lib d page_index search
      in if rects = [] then None
         else (case (if length rects > 1
                     then scan_blocks search off last_pos (get_text_dict lib d page_index)
                     else None) of
                 Some selected_rect \<Rightarrow> Some selected_rect
               | None \<Rightarrow> fallback_hit off last_pos rects))"

fun locate_in_pages ::
  "('d, 'f) pdf_lib \<Rightarrow> 'd \<Rightarrow> ustr \<Rightarrow> real option \<Rightarrow> nat list \<Rightarrow> (nat \<times> rect) option"
  where
  "locate_in_pages lib d search last_pos [] = None"
| "locate_in_pages lib d search last_pos (page_index # rest) =
     (case locate_on_page lib d search last_pos page_index of
        Some selected_rect \<Rightarrow> Some (page_index, selected_rect)
      | None \<Rightarrow> locate_in_pages lib d search last_pos rest)"

text \<open>The pair \<^verbatim>\<open>(selected_page_index, selected_rect)\<close> after the page loop.\<close>

definition locate ::
  "('d, 'f) pdf_lib \<Rightarrow> 'd \<Rightarrow> ustr \<Rightarrow> real option \<Rightarrow> (nat \<times> rect) option" where
  "locate lib d search last_pos =
     locate_in_pages lib d search last_pos [0..<page_count lib d]"

section \<open>Glyphs\<close>

text \<open>
  \<^verbatim>\<open>_span_glyphs\<close>. With \<^verbatim>\<open>chars\<close> present there is one glyph per character. Without,
  the span's box is divided evenly among the characters of its text, after a font has
  been built from the span's font name (which raises when the library cannot build it).
\<close>

definition span_glyphs :: "('d, 'f) pdf_lib \<Rightarrow> raw_span \<Rightarrow> py_error + glyph list" where
  "span_glyphs lib sp =
     (case rs_chars sp of
        Some chars \<Rightarrow>
          Inr (map (\<lambda>ch. \<lparr>g_c = char_c ch, g_bbox = char_bbox ch, g_font = rs_font sp,
                           g_size = rs_size sp, g_color = rs_color sp, g_flags = rs_flags sp\<rparr>)
                 chars)
      | None \<Rightarrow>
          (case Font lib (FontName (rs_font sp)) of
             None \<Rightarrow> Inl FontError
           | Some w \<Rightarrow>
               (let txt = rs_text sp;
                    step = (x1 (rs_bbox sp) - x0 (rs_bbox sp)) / real (max (length txt) 1)
                in Inr (map (\<lambda>(idx, ch).
                          \<lparr>g_c = ch,
                           g_bbox = \<lparr>x0 = x0 (rs_bbox sp) + real idx * step, y0 = y0 (rs_bbox sp),
                                     x1 = x0 (rs_bbox sp) + (real idx + 1) * step,
                                     y1 = y1 (rs_bbox sp)\<rparr>,
                           g_font = rs_font sp, g_size = rs_size sp, g_color = rs_color sp,
                           g_flags = rs_flags sp\<rparr>)
                        (enumerate 0 txt)))))"

text \<open>The glyphs of all spans, in order; the first span that raises ends the collection.\<close>

fun collect_glyphs :: "('d, 'f) pdf_lib \<Rightarrow> raw_span list \<Rightarrow> py_error + glyph list" where
  "collect_glyphs lib [] = Inr []"
| "collect_glyphs lib (sp # sps) =
     (case span_glyphs lib sp of
        Inl e \<Rightarrow> Inl e
      | Inr gs \<Rightarrow>
          (case collect_glyphs lib sps of
             Inl e \<Rightarrow> Inl e
           | Inr rest \<Rightarrow> Inr (gs @ rest)))"

definition page_glyphs :: "('d, 'f) pdf_lib \<Rightarrow> 'd \<Rightarrow> nat \<Rightarrow> py_error + glyph list" where
  "page_glyphs lib d page_index =
     collect_glyphs lib (concat (concat (get_text_rawdict lib d page_index)))"

text \<open>\<^verbatim>\<open>_normalize_color\<close> on a packed integer: the three components, each over 255.\<close>

definition normalize_color :: "int \<Rightarrow> real \<times> real \<times> real" where
  "normalize_color color =
     (let r = (color div 65536) mod 256;
          g = (color div 256) mod 256;
          b = color mod 256
      in (real_of_int r / 255, real_of_int g / 255, real_of_int b / 255))"

section \<open>The baseline\<close>

text \<open>The set \<^verbatim>\<open>checkbox_chars\<close>: the code points of the seven box characters.\<close>

definition checkbox_chars :: "nat set" where
  "checkbox_chars = {9633, 9632, 9744, 9745, 9746, 11036, 11035}"

text \<open>The loop that separates the target glyphs into text glyphs and checkbox glyphs.\<close>

fun separate_glyphs :: "glyph list \<Rightarrow> glyph list \<Rightarrow> glyph list \<Rightarrow> glyph list \<times> glyph list"
  where
  "separate_glyphs text_glyphs checkbox_glyphs [] = (text_glyphs, checkbox_glyphs)"
| "separate_glyphs text_glyphs checkbox_glyphs (g # gs) =
     (if g_c g \<in> checkbox_chars
      then separate_glyphs text_glyphs (checkbox_glyphs @ [g]) gs
      else separate_glyphs (text_glyphs @ [g]) checkbox_glyphs gs)"

text \<open>Python's \<^verbatim>\<open>max\<close> and \<^verbatim>\<open>min\<close> of a list; the source calls them on non-empty lists.\<close>

definition py_max :: "real list \<Rightarrow> real" where
  "py_max xs = foldl max (hd xs) (tl xs)"

definition py_min :: "real list \<Rightarrow> real" where
  "py_min xs = foldl min (hd xs) (tl xs)"

text \<open>The value of \<^verbatim>\<open>baseline_y\<close>, computed from the (non-empty) target glyphs.\<close>

definition baseline_y :: "glyph list \<Rightarrow> real" where
  "baseline_y target_glyphs =
     (let (text_glyphs, checkbox_glyphs) = separate_glyphs [] [] target_glyphs;
          baseline_glyphs = (if text_glyphs \<noteq> [] then text_glyphs else target_glyphs);
          base_glyph = hd baseline_glyphs;
          fontsize = g_size base_glyph;
          glyph_bottoms = map (\<lambda>g. y1 (g_bbox g)) baseline_glyphs;
          glyph_tops = map (\<lambda>g. y0 (g_bbox g)) baseline_glyphs;
          baseline_raw = py_max glyph_bottoms;
          glyph_top = py_min glyph_tops;
          glyph_height = baseline_raw - glyph_top;
          excess = max 0 (glyph_height - fontsize);
          baseline_shift =
            (if checkbox_glyphs \<noteq> [] \<and> text_glyphs \<noteq> []
             then min (excess * (5 / 10)) (fontsize * (1 / 10))
             else min (excess * (18 / 10)) (fontsize * (2 / 10)))
      in baseline_raw - baseline_shift)"

text \<open>
  The specification's reading of the baseline, in its own words: the selected glyphs, the
  glyph height, the excess, and the shift with its two constants \<open>K\<close> and \<open>cap\<close>.
\<close>

definition is_checkbox :: "glyph \<Rightarrow> bool" where
  "is_checkbox g = (g_c g \<in> checkbox_chars)"

definition selected_glyphs :: "glyph list \<Rightarrow> glyph list" where
  "selected_glyphs target =
     (if \<exists>g \<in> set target. \<not> is_checkbox g then filter (\<lambda>g. \<not> is_checkbox g) target
      else target)"

definition mixed :: "glyph list \<Rightarrow> bool" where
  "mixed target = ((\<exists>g \<in> set target. is_checkbox g) \<and> (\<exists>g \<in> set target. \<not> is_checkbox g))"

definition shift_K :: "bool \<Rightarrow> real" where
  "shift_K is_mixed = (if is_mixed then 5 / 10 else 18 / 10)"

definition shift_cap :: "bool \<Rightarrow> real" where
  "shift_cap is_mixed = (if is_mixed then 1 / 10 else 2 / 10)"

definition spec_baseline :: "glyph list \<Rightarrow> real" where
  "spec_baseline target =
     (let sel = selected_glyphs target;
          font_size = g_size (hd sel);
          max_bottom = Max (set (map (\<lambda>g. y1 (g_bbox g)) sel));
          min_top = Min (set (map (\<lambda>g. y0 (g_bbox g)) sel));
          glyph_height = max_bottom - min_top;
          excess = max 0 (glyph_height - font_size)
      in max_bottom - min (excess * shift_K (mixed target)) (font_size * shift_cap (mixed target)))"

section \<open>Font resolution\<close>

text \<open>The table \<^verbatim>\<open>pymupdf_font_map\<close> of \<^verbatim>\<open>_get_font\<close>, in insertion order.\<close>

definition pymupdf_font_map :: "(ustr \<times> ustr) list" where
  "pymupdf_font_map =
     [(ustr_of ''lmroman'', ustr_of ''tiro''), (ustr_of ''cmr'', ustr_of ''tiro''),
      (ustr_of ''times'', ustr_of ''tiro''), (ustr_of ''arial'', ustr_of ''helv''),
      (ustr_of ''helvetica'', ustr_of ''helv''), (ustr_of ''lmsans'', ustr_of ''helv''),
      (ustr_of ''cmss'', ustr_of ''helv''), (ustr_of ''courier'', ustr_of ''cour''),
      (ustr_of ''lmmono'', ustr_of ''cour''), (ustr_of ''cmtt'', ustr_of ''cour'')]"

text \<open>
  The loop over the table: the first entry whose prefix starts the lower-cased name and
  whose built-in font can be built; an entry whose font raises is passed over.
\<close>

fun try_font_map ::
  "('d, 'f) pdf_lib \<Rightarrow> ustr \<Rightarrow> (ustr \<times> ustr) list \<Rightarrow> ('f \<times> ustr) option" where
  "try_font_map lib name_lower [] = None"
| "try_font_map lib name_lower ((pre, pymupdf_font) # rest) =
     (if prefix pre name_lower
      then (case Font lib (FontName pymupdf_font) of
              Some f \<Rightarrow> Some (f, pymupdf_font)
            | None \<Rightarrow> try_font_map lib name_lower rest)
      else try_font_map lib name_lower rest)"

text \<open>
  The end of \<^verbatim>\<open>_get_font\<close>: the resolved name, and \<^verbatim>\<open>helv\<close> when that raises. This last
  construction is outside any \<^verbatim>\<open>try\<close>, so its exception leaves the function.
\<close>

definition last_resort :: "('d, 'f) pdf_lib \<Rightarrow> ustr \<Rightarrow> py_error + 'f" where
  "last_resort lib resolved_name =
     (case Font lib (FontName resolved_name) of
        Some f \<Rightarrow> Inr f
      | None \<Rightarrow>
          (case Font lib (FontName (ustr_of ''helv'')) of
             Some f \<Rightarrow> Inr f
           | None \<Rightarrow> Inl FontError))"

text \<open>Step 3 of \<^verbatim>\<open>_get_font\<close>, after the helper has answered and the font file was tried.\<close>

definition by_resolved_name :: "('d, 'f) pdf_lib \<Rightarrow> ustr \<Rightarrow> py_error + 'f" where
  "by_resolved_name lib resolved_name =
     (let low = str_lower lib resolved_name
      in if low = ustr_of ''times new roman'' \<or> contains (ustr_of ''times'') low
         then (case Font lib (FontName (ustr_of ''tiro'')) of
                 Some f \<Rightarrow> Inr f
               | None \<Rightarrow> last_resort lib resolved_name)
         else if low = ustr_of ''arial'' \<or> contains (ustr_of ''arial'') low
                 \<or> low = ustr_of ''helvetica'' \<or> contains (ustr_of ''helvetica'') low
         then (case Font lib (FontName (ustr_of ''helv'')) of
                 Some f \<Rightarrow> Inr f
               | None \<Rightarrow> last_resort lib resolved_name)
         else last_resort lib resolved_name)"

text \<open>The font path is used when it is truthy: present and not the empty string.\<close>

definition via_font_manager ::
  "('d, 'f) pdf_lib \<Rightarrow> ustr \<Rightarrow> py_error + ('f \<times> log_event list)" where
  "via_font_manager lib name =
     (let (resolved_name, font_path) = get_available_font lib name
      in case (case font_path of
                 None \<Rightarrow> None
               | Some p \<Rightarrow> if p = [] then None else Some p) of
           None \<Rightarrow>
             (case by_resolved_name lib resolved_name of
                Inl e \<Rightarrow> Inl e
              | Inr f \<Rightarrow> Inr (f, []))
         | Some p \<Rightarrow>
             (case Font lib (FontFile p) of
                Some f \<Rightarrow> Inr (f, [])
              | None \<Rightarrow>
                  (case by_resolved_name lib resolved_name of
                     Inl e \<Rightarrow> Inl e
                   | Inr f \<Rightarrow> Inr (f, [DebugEmbedFailed p]))))"

text \<open>
  \<^verbatim>\<open>_get_font\<close>, with the dictionary \<^verbatim>\<open>font_cache\<close> passed in and returned: the font, the
  cache after the call, and the log records written.
\<close>

definition get_font ::
  "('d, 'f) pdf_lib \<Rightarrow> (ustr \<rightharpoonup> 'f) \<Rightarrow> ustr \<Rightarrow>
     py_error + ('f \<times> (ustr \<rightharpoonup> 'f) \<times> log_event list)" where
  "get_font lib font_cache name =
     (case font_cache name of
        Some f \<Rightarrow> Inr (f, font_cache, [])
      | None \<Rightarrow>
          (case Font lib (FontName name) of
             Some f \<Rightarrow> Inr (f, font_cache(name \<mapsto> f), [])
           | None \<Rightarrow>
               (case try_font_map lib (str_lower lib name) pymupdf_font_map of
                  Some (f, pymupdf_font) \<Rightarrow>
                    Inr (f, font_cache(name \<mapsto> f), [InfoFontMapping name pymupdf_font])
                | None \<Rightarrow>
                    (case via_font_manager lib name of
                       Inl e \<Rightarrow> Inl e
                     | Inr (f, lg) \<Rightarrow> Inr (f, font_cache(name \<mapsto> f), lg)))))"

section \<open>One find-and-replace\<close>

text \<open>
  \<^verbatim>\<open>Counter(...).most_common(1)[0][0]\<close>: the key with the largest count, the first one
  inserted among equals; \<open>None\<close> when the counter is empty. Only truthy (non-empty) font
  names are counted.
\<close>

fun first_occurrences :: "ustr list \<Rightarrow> ustr list \<Rightarrow> ustr list" where
  "first_occurrences seen [] = seen"
| "first_occurrences seen (k # ks) =
     (if k \<in> set seen then first_occurrences seen ks else first_occurrences (seen @ [k]) ks)"

definition most_common_font :: "glyph list \<Rightarrow> ustr option" where
  "most_common_font target_glyphs =
     (let names = filter (\<lambda>n. n \<noteq> []) (map g_font target_glyphs)
      in case first_occurrences [] names of
           [] \<Rightarrow> None
         | k # ks \<Rightarrow>
             Some (foldl (\<lambda>best n. if count_list names n > count_list names best then n else best)
                     k ks))"

definition dominant_fontname :: "glyph list \<Rightarrow> ustr" where
  "dominant_fontname target_glyphs =
     (case most_common_font target_glyphs of
        Some n \<Rightarrow> n
      | None \<Rightarrow> g_font (hd target_glyphs))"

text \<open>\<^verbatim>\<open>rep_glyph\<close>: the first target glyph of the dominant font, else the first glyph.\<close>

definition rep_glyph :: "glyph list \<Rightarrow> glyph" where
  "rep_glyph target_glyphs =
     (case filter (\<lambda>g. g_font g = dominant_fontname target_glyphs) target_glyphs of
        g # _ \<Rightarrow> g
      | [] \<Rightarrow> hd target_glyphs)"

text \<open>The loop that appends the characters of the replacement to the text writer.\<close>

fun layout :: "('d, 'f) pdf_lib \<Rightarrow> 'f \<Rightarrow> real \<Rightarrow> real \<Rightarrow> real \<Rightarrow> ustr \<Rightarrow> 'f text_item list"
  where
  "layout lib font_obj fontsize cursor_x baseline_pos [] = []"
| "layout lib font_obj fontsize cursor_x baseline_pos (ch # chs) =
     (cursor_x, baseline_pos, ch, font_obj, fontsize)
       # layout lib font_obj fontsize (cursor_x + text_length lib font_obj ch fontsize)
           baseline_pos chs"

text \<open>
  What \<^verbatim>\<open>replace_text_preserve_layout_pdf\<close> holds while it runs: the open document, the
  font cache, and the log records written so far.
\<close>

record ('d, 'f) session =
  doc :: 'd
  font_cache :: "ustr \<rightharpoonup> 'f"
  logs :: "log_event list"

text \<open>
  \<^verbatim>\<open>_replace_once\<close>: the session after the call and the value returned. The branch for no
  target glyphs is the \<^verbatim>\<open>continue\<close> of the source; it is followed, like the full
  replacement, by the final \<^verbatim>\<open>return page_offset + selected_rect.y1\<close>, which reads the page
  height from the document as it then is.
\<close>

definition replace_once ::
  "('d, 'f) pdf_lib \<Rightarrow> ('d, 'f) session \<Rightarrow> ustr \<Rightarrow> ustr \<Rightarrow> real option \<Rightarrow>
     py_error + (('d, 'f) session \<times> real option)" where
  "replace_once lib st search repl last_pos =
     (case locate lib (doc st) search last_pos of
        None \<Rightarrow> Inr (st\<lparr>logs := logs st @ [DebugNoMatch search]\<rparr>, last_pos)
      | Some (selected_page_index, selected_rect) \<Rightarrow>
          (case page_glyphs lib (doc st) selected_page_index of
             Inl e \<Rightarrow> Inl e
           | Inr glyphs \<Rightarrow>
               (let target_glyphs =
                      filter (\<lambda>g. intersects lib selected_rect (g_bbox g)) glyphs
                in if target_glyphs = []
                   then Inr (st, Some (page_offset lib (doc st) selected_page_index
                                       + y1 selected_rect))
                   else
                     (let sanitized_repl = sanitize_unicode_for_pdf repl;
                          baseline_pos = baseline_y target_glyphs;
                          d1 = apply_redaction lib (doc st) selected_page_index selected_rect;
                          fontsize = g_size (rep_glyph target_glyphs);
                          rep_color = normalize_color (g_color (rep_glyph target_glyphs))
                      in case get_font lib (font_cache st) (dominant_fontname target_glyphs) of
                           Inl e \<Rightarrow> Inl e
                         | Inr (font_obj, cache', lg) \<Rightarrow>
                             (let d2 = write_text lib d1 selected_page_index rep_color
                                         (layout lib font_obj fontsize (x0 selected_rect)
                                            baseline_pos sanitized_repl)
                              in Inr (\<lparr>doc = d2, font_cache = cache',
                                       logs = logs st @ sanitize_log repl @ lg\<rparr>,
                                      Some (page_offset lib d2 selected_page_index
                                            + y1 selected_rect)))))))"

section \<open>The driver\<close>

text \<open>
  \<^verbatim>\<open>str.splitlines()\<close>: the text is cut at every line boundary (line feed, carriage
  return with or without a line feed after it, vertical tab, form feed, the three
  separators 28 to 30, next line, line separator, paragraph separator); the boundaries
  are dropped and there is no empty last line.
\<close>

definition line_boundaries :: "nat set" where
  "line_boundaries = {10, 11, 12, 13, 28, 29, 30, 133, 8232, 8233}"

fun splitlines_from :: "ustr \<Rightarrow> ustr \<Rightarrow> ustr list" where
  "splitlines_from cur [] = (if cur = [] then [] else [cur])"
| "splitlines_from cur (c # cs) =
     (if c = 13 then
        (case cs of
           [] \<Rightarrow> [cur]
         | c' # cs' \<Rightarrow> if c' = 10 then cur # splitlines_from [] cs'
                       else cur # splitlines_from [] (c' # cs'))
      else if c \<in> line_boundaries then cur # splitlines_from [] cs
      else splitlines_from (cur @ [c]) cs)"

definition splitlines :: "ustr \<Rightarrow> ustr list" where
  "splitlines s = splitlines_from [] s"

text \<open>The arguments \<^verbatim>\<open>s1\<close> and \<^verbatim>\<open>s2\<close> are each a string or a list of strings.\<close>

datatype text_arg = Str ustr | Lines "ustr list"

definition is_list :: "text_arg \<Rightarrow> bool" where
  "is_list a = (case a of Lines _ \<Rightarrow> True | Str _ \<Rightarrow> False)"

definition has_newline :: "text_arg \<Rightarrow> bool" where
  "has_newline a = (case a of Str s \<Rightarrow> 10 \<in> set s | Lines l \<Rightarrow> [10] \<in> set l)"

definition falsy :: "text_arg \<Rightarrow> bool" where
  "falsy a = (case a of Str s \<Rightarrow> s = [] | Lines l \<Rightarrow> l = [])"

definition to_lines :: "bool \<Rightarrow> text_arg \<Rightarrow> ustr list" where
  "to_lines multiline a =
     (case a of
        Lines l \<Rightarrow> l
      | Str s \<Rightarrow> if multiline then splitlines s else [s])"

text \<open>
  The filter before the loop: \<^verbatim>\<open>related_lines\<close> and the two cleaned lists, built over the
  indices \<^verbatim>\<open>range(n)\<close> of lists of the same length \<^verbatim>\<open>n\<close>.
\<close>

definition related_lines :: "ustr list \<Rightarrow> ustr list \<Rightarrow> ustr set" where
  "related_lines s1_lines s2_lines =
     set (map (\<lambda>i. s1_lines ! i)
            (filter (\<lambda>i. s1_lines ! i \<noteq> s2_lines ! i) [0..<length s1_lines]))"

definition cleaned_indices :: "ustr list \<Rightarrow> ustr list \<Rightarrow> nat list" where
  "cleaned_indices s1_lines s2_lines =
     filter (\<lambda>i. s1_lines ! i \<in> related_lines s1_lines s2_lines) [0..<length s1_lines]"

definition cleaned_s1_lines :: "ustr list \<Rightarrow> ustr list \<Rightarrow> ustr list" where
  "cleaned_s1_lines s1_lines s2_lines =
     map (\<lambda>i. s1_lines ! i) (cleaned_indices s1_lines s2_lines)"

definition cleaned_s2_lines :: "ustr list \<Rightarrow> ustr list \<Rightarrow> ustr list" where
  "cleaned_s2_lines s1_lines s2_lines =
     map (\<lambda>i. s2_lines ! i) (cleaned_indices s1_lines s2_lines)"

text \<open>
  The body of the loop for one pair whose search line is not empty. The locate-only
  branch calls \<^verbatim>\<open>get_string_last_char_position_pdf\<close> with \<^verbatim>\<open>pdf_path\<close>, that is, on the
  file as it is on disk (\<open>d0\<close>: nothing is saved before the loop ends), and assigns what
  it returns to \<^verbatim>\<open>last_position\<close>.
\<close>

definition process_pair ::
  "('d, 'f) pdf_lib \<Rightarrow> 'd \<Rightarrow> ('d, 'f) session \<times> real option \<Rightarrow> ustr \<times> ustr \<Rightarrow>
     py_error + (('d, 'f) session \<times> real option)" where
  "process_pair lib d0 state pair =
     (case state of (st, last_position) \<Rightarrow>
      case pair of (search_line, repl_line) \<Rightarrow>
        if search_line = repl_line
        then (case get_string_last_char_position_pdf lib d0 search_line last_position of
                Inl e \<Rightarrow> Inl e
              | Inr p \<Rightarrow> Inr (st, p))
        else replace_once lib st search_line repl_line last_position)"

text \<open>The loop over the zipped lines; an empty search line is skipped.\<close>

fun driver_loop ::
  "('d, 'f) pdf_lib \<Rightarrow> 'd \<Rightarrow> ('d, 'f) session \<times> real option \<Rightarrow> (ustr \<times> ustr) list \<Rightarrow>
     py_error + (('d, 'f) session \<times> real option)" where
  "driver_loop lib d0 state [] = Inr state"
| "driver_loop lib d0 state (pair # rest) =
     (if fst pair = [] then driver_loop lib d0 state rest
      else (case process_pair lib d0 state pair of
              Inl e \<Rightarrow> Inl e
            | Inr state' \<Rightarrow> driver_loop lib d0 state' rest))"

text \<open>The session at the start: the document as opened, and an empty font cache.\<close>

definition new_session :: "'d \<Rightarrow> ('d, 'f) session" where
  "new_session d = \<lparr>doc = d, font_cache = Map.empty, logs = []\<rparr>"

text \<open>The flag \<^verbatim>\<open>multiline\<close> and the two lists of lines it leads to.\<close>

definition multiline :: "text_arg \<Rightarrow> text_arg \<Rightarrow> bool" where
  "multiline s1 s2 = (is_list s1 \<or> is_list s2 \<or> has_newline s1 \<or> has_newline s2)"

definition s1_lines :: "text_arg \<Rightarrow> text_arg \<Rightarrow> ustr list" where
  "s1_lines s1 s2 = to_lines (multiline s1 s2) s1"

definition s2_lines :: "text_arg \<Rightarrow> text_arg \<Rightarrow> ustr list" where
  "s2_lines s1 s2 = to_lines (multiline s1 s2) s2"

text \<open>
  \<^verbatim>\<open>replace_text_preserve_layout_pdf\<close> up to the point where the document is saved: the
  session (the document in memory that is then written out) and the last position.
  \<open>d0\<close> is the content of the file at \<^verbatim>\<open>pdf_path\<close>.
\<close>

definition replace_text_preserve_layout_pdf ::
  "('d, 'f) pdf_lib \<Rightarrow> 'd \<Rightarrow> text_arg \<Rightarrow> text_arg \<Rightarrow> real option \<Rightarrow>
     py_error + (('d, 'f) session \<times> real option)" where
  "replace_text_preserve_layout_pdf lib d0 s1 s2 position =
     (if falsy s1 then Inl (ValueError ''Search string cannot be empty'')
      else if length (s1_lines s1 s2) \<noteq> length (s2_lines s1 s2)
      then Inl (ValueError ''s1 and s2 must have the same number of lines'')
      else driver_loop lib d0 (new_session d0, position)
             (zip (cleaned_s1_lines (s1_lines s1 s2) (s2_lines s1 s2))
                  (cleaned_s2_lines (s1_lines s1 s2) (s2_lines s1 s2))))"

text \<open>
  The specification's reading of the filter and of the processing: the pairs that
  survive, and the loop body applied to each pair of a list in turn, none skipped.
\<close>

definition surviving_pairs :: "(ustr \<times> ustr) list \<Rightarrow> (ustr \<times> ustr) list" where
  "surviving_pairs pairs =
     filter (\<lambda>(search, repl). search \<noteq> []
               \<and> (\<exists>(search', repl') \<in> set pairs. search' = search \<and> search' \<noteq> repl'))
       pairs"

fun process_all ::
  "('d, 'f) pdf_lib \<Rightarrow> 'd \<Rightarrow> ('d, 'f) session \<times> real option \<Rightarrow> (ustr \<times> ustr) list \<Rightarrow>
     py_error + (('d, 'f) session \<times> real option)" where
  "process_all lib d0 state [] = Inr state"
| "process_all lib d0 state (pair # rest) =
     (case process_pair lib d0 state pair of
        Inl e \<Rightarrow> Inl e
      | Inr state' \<Rightarrow> process_all lib d0 state' rest)"

section \<open>Concrete documents\<close>

text \<open>
  A small instance of the library, to evaluate the functions on concrete documents: a
  document is a list of pages, each with its height, the rectangles the search reports
  for a string, its text blocks and its raw spans, together with the edits made so far
  (redactions and written text are recorded and leave the tables as they are). Only the
  built-in fonts \<^verbatim>\<open>helv\<close>, \<^verbatim>\<open>tiro\<close> and \<^verbatim>\<open>cour\<close> can be built, and the font helper has no
  font file to offer.
\<close>

record demo_page =
  dp_height :: real
  dp_hits :: "(ustr \<times> rect list) list"
  dp_blocks :: "block list"
  dp_raw :: "raw_span list list list"

datatype demo_edit =
    Redacted nat rect
  | Written nat "real \<times> real \<times> real" "font_source text_item list"

type_synonym demo_doc = "demo_page list \<times> demo_edit list"

definition demo_lower :: "ustr \<Rightarrow> ustr" where
  "demo_lower s = map (\<lambda>c. if 65 \<le> c \<and> c \<le> 90 then c + 32 else c) s"

definition demo_builtin :: "font_source \<Rightarrow> font_source option" where
  "demo_builtin src =
     (if src = FontName (ustr_of ''helv'') \<or> src = FontName (ustr_of ''tiro'')
         \<or> src = FontName (ustr_of ''cour'')
      then Some src else None)"

definition demo_lib :: "(demo_doc, font_source) pdf_lib" where
  "demo_lib =
     \<lparr>page_count = (\<lambda>d. length (fst d)),
      page_height = (\<lambda>d i. dp_height (fst d ! i)),
      search_for = (\<lambda>d i s. case map_of (dp_hits (fst d ! i)) s of
                                None \<Rightarrow> [] | Some rs \<Rightarrow> rs),
      get_text_dict = (\<lambda>d i. dp_blocks (fst d ! i)),
      get_text_rawdict = (\<lambda>d i. dp_raw (fst d ! i)),
      intersects = (\<lambda>a b. x0 a < x1 b \<and> x0 b < x1 a \<and> y0 a < y1 b \<and> y0 b < y1 a),
      apply_redaction = (\<lambda>d i r. (fst d, snd d @ [Redacted i r])),
      write_text = (\<lambda>d i col items. (fst d, snd d @ [Written i col items])),
      Font = demo_builtin,
      text_length = (\<lambda>f ch fontsize. fontsize / 2),
      get_available_font = (\<lambda>name. (name, None)),
      str_lower = demo_lower\<rparr>"



definition box :: "real \<Rightarrow> real \<Rightarrow> real \<Rightarrow> real \<Rightarrow> rect" where
  "box a b c d = \<lparr>x0 = a, y0 = b, x1 = c, y1 = d\<rparr>"

definition one_char_span :: "nat \<Rightarrow> rect \<Rightarrow> raw_span" where
  "one_char_span ch r =
     \<lparr>rs_chars = Some [\<lparr>char_c = ch, char_bbox = r\<rparr>], rs_text = [ch], rs_bbox = r,
      rs_font = ustr_of ''Helvetica'', rs_size = 10, rs_color = 0, rs_flags = 0\<rparr>"

text \<open>
  One page of height 100 with the letter B on a line ending at 20 and the letter A on
  a line ending at 50.
\<close>

definition two_letters :: demo_doc where
  "two_letters =
     ([\<lparr>dp_height = 100,
        dp_hits = [([65], [box 10 40 20 50]), ([66], [box 10 10 20 20])],
        dp_blocks = [],
        dp_raw = [[[one_char_span 66 (box 10 10 20 20), one_char_span 65 (box 10 40 20 50)]]]\<rparr>],
      [])"

text \<open>The same page when the raw text structure reports no span at all.\<close>

definition no_glyphs :: demo_doc where
  "no_glyphs =
     ([\<lparr>dp_height = 100,
        dp_hits = [([65], [box 10 40 20 50])],
        dp_blocks = [],
        dp_raw = []\<rparr>],
      [])"

text \<open>
  One page with two lines, \<^verbatim>\<open>xx ____\<close> (one span) above \<^verbatim>\<open>____ yy\<close> (two spans); the
  search for \<^verbatim>\<open>____\<close> reports one rectangle on each line, the upper one first. The raw
  text structure has the glyphs of the two blanks.
\<close>

definition blanks :: ustr where
  "blanks = [95, 95, 95, 95]"

definition two_blanks :: demo_doc where
  "two_blanks =
     ([\<lparr>dp_height = 100,
        dp_hits = [(blanks, [box 30 0 70 10, box 0 10 40 20])],
        dp_blocks =
          [\<lparr>block_type = 0,
            block_lines =
              [\<lparr>line_bbox = box 0 0 70 10,
                line_spans = [\<lparr>span_text = [120, 120, 32] @ blanks,
                               span_bbox = box 0 0 70 10\<rparr>]\<rparr>,
               \<lparr>line_bbox = box 0 10 70 20,
                line_spans = [\<lparr>span_text = blanks, span_bbox = box 0 10 40 20\<rparr>,
                              \<lparr>span_text = [32, 121, 121],
                               span_bbox = box 40 10 70 20\<rparr>]\<rparr>]\<rparr>],
        dp_raw =
          [[[one_char_span 95 (box 30 0 40 10), one_char_span 95 (box 40 0 50 10),
             one_char_span 95 (box 50 0 60 10), one_char_span 95 (box 60 0 70 10)],
            [one_char_span 95 (box 0 10 10 20), one_char_span 95 (box 10 10 20 20),
             one_char_span 95 (box 20 10 30 20), one_char_span 95 (box 30 10 40 20)]]]\<rparr>],
      [])"

text \<open>The position a call leaves behind, or the exception it raises.\<close>

definition cursor_of ::
  "py_error + (('d, 'f) session \<times> real option) \<Rightarrow> py_error + real option" where
  "cursor_of res = (case res of Inl e \<Rightarrow> Inl e | Inr (st, cur) \<Rightarrow> Inr cur)"

text \<open>The characters of the entries of a text writer, in order.\<close>

definition written_chars :: "'f text_item list \<Rightarrow> ustr" where
  "written_chars items = map (\<lambda>(x, y, ch, font_obj, fontsize). ch) items"

text \<open>
  A page where the search reports the letter A but the only glyph of the raw text
  structure lies elsewhere; and a glyph like those of the pages above.
\<close>

definition stray_glyph :: demo_doc where
  "stray_glyph =
     ([\<lparr>dp_height = 100,
        dp_hits = [([65], [box 10 40 20 50])],
        dp_blocks = [],
        dp_raw = [[[one_char_span 65 (box 200 200 210 210)]]]\<rparr>],
      [])"

definition letter_glyph :: "nat \<Rightarrow> rect \<Rightarrow> glyph" where
  "letter_glyph ch r =
     \<lparr>g_c = ch, g_bbox = r, g_font = ustr_of ''Helvetica'', g_size = 10, g_color = 0,
      g_flags = 0\<rparr>"

section \<open>Properties of the sanitiser\<close>

lemma replace_char_Nil: "replace_char old new [] = []"
  by (simp add: replace_char_def)

lemma replace_char_append:
  "replace_char old new (xs @ ys) = replace_char old new xs @ replace_char old new ys"
  by (simp add: replace_char_def)

lemma replace_all_keys_Nil: "replace_all_keys [] = []"
  by (simp add: replace_all_keys_def unicode_replacements_def replace_char_Nil)

lemma replace_all_keys_append:
  "replace_all_keys (xs @ ys) = replace_all_keys xs @ replace_all_keys ys"
  by (simp add: replace_all_keys_def unicode_replacements_def replace_char_append)

lemma replace_all_keys_single: "replace_all_keys [c] = ascii_equivalent c"
  by (simp add: replace_all_keys_def unicode_replacements_def replace_char_def
      ascii_equivalent_def)

lemma replace_all_keys_concat: "replace_all_keys t = concat (map ascii_equivalent t)"
proof (induction t)
  case Nil
  show ?case by (simp add: replace_all_keys_Nil)
next
  case (Cons c t)
  have "replace_all_keys (c # t) = replace_all_keys ([c] @ t)" by simp
  also have "\<dots> = replace_all_keys [c] @ replace_all_keys t"
    by (rule replace_all_keys_append)
  finally show ?case by (simp add: replace_all_keys_single Cons.IH)
qed

lemma sanitize_concat: "sanitize_unicode_for_pdf t = concat (map ascii_equivalent t)"
proof (cases "t = []")
  case True
  then show ?thesis by (simp add: sanitize_unicode_for_pdf_def)
next
  case False
  then have "sanitize_unicode_for_pdf t = replace_all_keys t"
    by (simp add: sanitize_unicode_for_pdf_def replace_all_keys_def)
  then show ?thesis by (simp add: replace_all_keys_concat)
qed

lemma ascii_equivalent_clean:
  "x \<in> set (ascii_equivalent c) \<Longrightarrow> x \<notin> mapped_code_points"
  by (auto simp: ascii_equivalent_def mapped_code_points_def split: if_splits)

lemma ascii_equivalent_id: "c \<notin> mapped_code_points \<Longrightarrow> ascii_equivalent c = [c]"
  by (simp add: ascii_equivalent_def mapped_code_points_def)

lemma concat_ascii_equivalent_id:
  "set t \<inter> mapped_code_points = {} \<Longrightarrow> concat (map ascii_equivalent t) = t"
  by (induction t) (auto simp: ascii_equivalent_id)

lemma sanitize_clean: "set (sanitize_unicode_for_pdf t) \<inter> mapped_code_points = {}"
  by (auto simp: sanitize_concat dest: ascii_equivalent_clean)

section \<open>The locator\<close>

lemma y1_foldl_rect_or: "y1 r \<le> y1 (foldl rect_or r fs)"
proof (induction fs arbitrary: r)
  case Nil
  show ?case by simp
next
  case (Cons f fs)
  have "y1 r \<le> y1 (rect_or r f)" by (simp add: rect_or_def)
  also have "\<dots> \<le> y1 (foldl rect_or (rect_or r f) fs)" by (rule Cons.IH)
  finally show ?case by simp
qed

lemma first_rect_below_Some:
  "first_rect_below off (Some p) rs = Some y \<Longrightarrow> y > p"
  by (induction rs) (auto simp: below_def Let_def split: if_splits)

lemma position_in_pages_Some:
  "position_in_pages lib d s (Some p) pis = Some y \<Longrightarrow> y > p"
  by (induction pis) (auto split: option.splits dest: first_rect_below_Some)

lemma scan_lines_Some:
  "scan_lines s off (Some p) ls = Some r \<Longrightarrow> off + y1 r > p"
  by (induction ls) (auto simp: below_def split: if_splits option.splits prod.splits)

lemma scan_blocks_Some:
  "scan_blocks s off (Some p) bs = Some r \<Longrightarrow> off + y1 r > p"
  by (induction bs) (auto split: if_splits option.splits dest: scan_lines_Some)

lemma fallback_hit_Some:
  "fallback_hit off (Some p) rs = Some r \<Longrightarrow> off + y1 r > p"
proof (induction rs)
  case Nil
  then show ?case by simp
next
  case (Cons a rs)
  show ?case
  proof (cases "below (Some p) (off + y1 a)")
    case True
    with Cons.prems have r: "r = foldl rect_or a (takeWhile (same_hit a) rs)" by simp
    from True have "off + y1 a > p" by (simp add: below_def)
    moreover have "y1 a \<le> y1 r" unfolding r by (rule y1_foldl_rect_or)
    ultimately show ?thesis by simp
  next
    case False
    with Cons show ?thesis by simp
  qed
qed

lemma locate_on_page_Some:
  "locate_on_page lib d s (Some p) page_index = Some r \<Longrightarrow>
     page_offset lib d page_index + y1 r > p"
  by (auto simp: locate_on_page_def Let_def split: if_splits option.splits
      dest: scan_blocks_Some fallback_hit_Some)

lemma locate_in_pages_Some:
  "locate_in_pages lib d s (Some p) pis = Some (page_index, r) \<Longrightarrow>
     page_offset lib d page_index + y1 r > p"
  by (induction pis) (auto split: option.splits dest: locate_on_page_Some)

section \<open>The baseline\<close>

lemma separate_glyphs_filter:
  "separate_glyphs tg cg gs =
     (tg @ filter (\<lambda>g. \<not> is_checkbox g) gs, cg @ filter is_checkbox gs)"
  by (induction gs arbitrary: tg cg) (simp_all add: is_checkbox_def)

lemma foldl_max_Max: "foldl max x xs = Max (set (x # xs))"
proof -
  have "fold (\<lambda>a s. max s a) xs x = fold max xs x"
    by (rule arg_cong [of _ _ "\<lambda>f. fold f xs x"]) (simp add: fun_eq_iff max.commute)
  then have "foldl max x xs = fold max xs x" by (simp add: foldl_conv_fold)
  then show ?thesis by (simp only: Max.set_eq_fold)
qed

lemma foldl_min_Min: "foldl min x xs = Min (set (x # xs))"
proof -
  have "fold (\<lambda>a s. min s a) xs x = fold min xs x"
    by (rule arg_cong [of _ _ "\<lambda>f. fold f xs x"]) (simp add: fun_eq_iff min.commute)
  then have "foldl min x xs = fold min xs x" by (simp add: foldl_conv_fold)
  then show ?thesis by (simp only: Min.set_eq_fold)
qed

lemma py_max_Max: "xs \<noteq> [] \<Longrightarrow> py_max xs = Max (set xs)"
  by (cases xs) (simp_all add: py_max_def foldl_max_Max del: set_simps)

lemma py_min_Min: "xs \<noteq> [] \<Longrightarrow> py_min xs = Min (set xs)"
  by (cases xs) (simp_all add: py_min_def foldl_min_Min del: set_simps)

lemma filter_text_nonempty:
  "(filter (\<lambda>g. \<not> is_checkbox g) target \<noteq> []) = (\<exists>g \<in> set target. \<not> is_checkbox g)"
  by (simp add: filter_empty_conv)

lemma filter_checkbox_nonempty:
  "(filter is_checkbox target \<noteq> []) = (\<exists>g \<in> set target. is_checkbox g)"
  by (simp add: filter_empty_conv)

lemma selected_glyphs_nonempty: "target \<noteq> [] \<Longrightarrow> selected_glyphs target \<noteq> []"
  by (auto simp: selected_glyphs_def filter_empty_conv)

text \<open>
  Claim C8. For non-empty target glyphs the baseline the code computes is the one the
  specification describes: over the text glyphs if there are any and over all target
  glyphs otherwise, the glyph height is the largest bottom minus the smallest top, the
  excess is that height minus the font size (the size of the first selected glyph) and at
  least 0, and the baseline is the largest bottom minus \<open>min (excess * K) (font_size * cap)\<close>;
  both \<open>K\<close> and \<open>cap\<close> are strictly smaller when checkbox glyphs are mixed with text
  glyphs than otherwise.
\<close>

theorem baseline_as_specified:
  "target \<noteq> [] \<Longrightarrow>
     baseline_y target = spec_baseline target
     \<and> shift_K True < shift_K False \<and> shift_cap True < shift_cap False"
proof (intro conjI)
  assume ne: "target \<noteq> []"
  let ?sel = "selected_glyphs target"
  have sel: "(if filter (\<lambda>g. \<not> is_checkbox g) target \<noteq> []
              then filter (\<lambda>g. \<not> is_checkbox g) target else target) = ?sel"
    by (simp add: selected_glyphs_def filter_empty_conv)
  have sel_ne: "?sel \<noteq> []" using ne by (rule selected_glyphs_nonempty)
  have mx: "py_max (map (\<lambda>g. y1 (g_bbox g)) ?sel) = Max (set (map (\<lambda>g. y1 (g_bbox g)) ?sel))"
    using sel_ne by (intro py_max_Max) simp
  have mn: "py_min (map (\<lambda>g. y0 (g_bbox g)) ?sel) = Min (set (map (\<lambda>g. y0 (g_bbox g)) ?sel))"
    using sel_ne by (intro py_min_Min) simp
  have mixed: "(filter is_checkbox target \<noteq> [] \<and> filter (\<lambda>g. \<not> is_checkbox g) target \<noteq> [])
                 = mixed target"
    by (simp add: mixed_def filter_empty_conv)
  have "baseline_y target =
          (let baseline_glyphs = ?sel;
               fontsize = g_size (hd baseline_glyphs);
               baseline_raw = py_max (map (\<lambda>g. y1 (g_bbox g)) baseline_glyphs);
               glyph_top = py_min (map (\<lambda>g. y0 (g_bbox g)) baseline_glyphs);
               excess = max 0 (baseline_raw - glyph_top - fontsize)
           in baseline_raw - (if mixed target
                              then min (excess * (5 / 10)) (fontsize * (1 / 10))
                              else min (excess * (18 / 10)) (fontsize * (2 / 10))))"
    unfolding baseline_y_def separate_glyphs_filter
    by (simp only: Let_def prod.case append_Nil sel mixed)
  also have "\<dots> = spec_baseline target"
    unfolding spec_baseline_def Let_def mx mn shift_K_def shift_cap_def
    by simp
  finally show "baseline_y target = spec_baseline target" .
next
  show "shift_K True < shift_K False" by (simp add: shift_K_def)
  show "shift_cap True < shift_cap False" by (simp add: shift_cap_def)
qed

section \<open>The filter\<close>

lemma zip_as_indices:
  "length xs = length ys \<Longrightarrow> zip xs ys = map (\<lambda>i. (xs ! i, ys ! i)) [0..<length xs]"
  by (auto intro!: nth_equalityI)

lemma related_lines_zip:
  "length xs = length ys \<Longrightarrow>
     related_lines xs ys = {a. \<exists>b. (a, b) \<in> set (zip xs ys) \<and> a \<noteq> b}"
  by (auto simp: related_lines_def set_zip)

lemma cleaned_zip:
  assumes "length xs = length ys"
  shows "zip (cleaned_s1_lines xs ys) (cleaned_s2_lines xs ys) =
           filter (\<lambda>(a, b). a \<in> related_lines xs ys) (zip xs ys)"
proof -
  have "zip (cleaned_s1_lines xs ys) (cleaned_s2_lines xs ys) =
          map (\<lambda>i. (xs ! i, ys ! i)) (cleaned_indices xs ys)"
    by (simp add: cleaned_s1_lines_def cleaned_s2_lines_def zip_map_map zip_same_conv_map)
  also have "\<dots> = filter (\<lambda>(a, b). a \<in> related_lines xs ys)
                      (map (\<lambda>i. (xs ! i, ys ! i)) [0..<length xs])"
    by (simp add: cleaned_indices_def filter_map comp_def)
  finally show ?thesis using assms by (simp add: zip_as_indices)
qed

lemma driver_loop_process_all:
  "driver_loop lib d0 state pairs =
     process_all lib d0 state (filter (\<lambda>pair. fst pair \<noteq> []) pairs)"
  by (induction pairs arbitrary: state) (auto split: sum.splits)

lemma surviving_pairs_filter:
  assumes "length xs = length ys"
  shows "filter (\<lambda>pair. fst pair \<noteq> [])
           (filter (\<lambda>(a, b). a \<in> related_lines xs ys) (zip xs ys)) =
         surviving_pairs (zip xs ys)"
proof -
  have "\<And>a b. (a \<in> related_lines xs ys) =
          (\<exists>(search', repl') \<in> set (zip xs ys). search' = a \<and> search' \<noteq> repl')"
    using assms by (auto simp: related_lines_zip)
  then show ?thesis
    by (auto simp: surviving_pairs_def intro!: filter_cong)
qed

text \<open>
  Claim C7. When the arguments pass the two checks, \<^verbatim>\<open>replace_text_preserve_layout_pdf\<close>
  does exactly what processing the surviving pairs, in their order, does: the pairs with
  a non-empty search line that is the search line of some pair of the list whose
  replacement differs. No other pair takes part.
\<close>

theorem surviving_pairs_processed:
  "\<not> falsy s1 \<Longrightarrow> length (s1_lines s1 s2) = length (s2_lines s1 s2) \<Longrightarrow>
     replace_text_preserve_layout_pdf lib d0 s1 s2 position =
       process_all lib d0 (new_session d0, position)
         (surviving_pairs (zip (s1_lines s1 s2) (s2_lines s1 s2)))"
proof -
  assume nf: "\<not> falsy s1" and len: "length (s1_lines s1 s2) = length (s2_lines s1 s2)"
  have "replace_text_preserve_layout_pdf lib d0 s1 s2 position =
          driver_loop lib d0 (new_session d0, position)
            (zip (cleaned_s1_lines (s1_lines s1 s2) (s2_lines s1 s2))
                 (cleaned_s2_lines (s1_lines s1 s2) (s2_lines s1 s2)))"
    using nf len by (simp add: replace_text_preserve_layout_pdf_def)
  also have "\<dots> = process_all lib d0 (new_session d0, position)
                      (filter (\<lambda>pair. fst pair \<noteq> [])
                         (filter (\<lambda>(a, b). a \<in> related_lines (s1_lines s1 s2) (s2_lines s1 s2))
                            (zip (s1_lines s1 s2) (s2_lines s1 s2))))"
    by (simp only: driver_loop_process_all cleaned_zip [OF len])
  finally show ?thesis by (simp only: surviving_pairs_filter [OF len])
qed

section \<open>Claims about the sanitiser\<close>

text \<open>
  Claim C10. \<^verbatim>\<open>sanitize_unicode_for_pdf\<close> is idempotent, and it returns unchanged any
  string in which none of the eight mapped code points occurs.
\<close>

theorem sanitize_idempotent:
  "sanitize_unicode_for_pdf (sanitize_unicode_for_pdf t) = sanitize_unicode_for_pdf t
   \<and> (set t \<inter> mapped_code_points = {} \<longrightarrow> sanitize_unicode_for_pdf t = t)"
proof -
  have clean_id: "sanitize_unicode_for_pdf u = u" if "set u \<inter> mapped_code_points = {}" for u
    using that by (simp add: sanitize_concat concat_ascii_equivalent_id)
  from clean_id [OF sanitize_clean] clean_id show ?thesis by blast
qed

section \<open>One find-and-replace\<close>

lemma written_chars_layout:
  "written_chars (layout lib font_obj fontsize cursor_x baseline_pos t) = t"
  by (induction t arbitrary: cursor_x) (simp_all add: written_chars_def)

lemma replace_once_not_found:
  "locate lib (doc st) search last_pos = None \<Longrightarrow>
     replace_once lib st search repl last_pos =
       Inr (st\<lparr>logs := logs st @ [DebugNoMatch search]\<rparr>, last_pos)"
  by (simp add: replace_once_def)

lemma replace_once_drawn:
  assumes "locate lib (doc st) search last_pos = Some (page_index, r)"
    and "page_glyphs lib (doc st) page_index = Inr glyphs"
    and "filter (\<lambda>g. intersects lib r (g_bbox g)) glyphs = target"
    and "target \<noteq> []"
    and "get_font lib (font_cache st) (dominant_fontname target) = Inr (font_obj, cache', lg)"
  shows "replace_once lib st search repl last_pos =
     Inr (\<lparr>doc = write_text lib (apply_redaction lib (doc st) page_index r) page_index
                  (normalize_color (g_color (rep_glyph target)))
                  (layout lib font_obj (g_size (rep_glyph target)) (x0 r) (baseline_y target)
                     (sanitize_unicode_for_pdf repl)),
           font_cache = cache',
           logs = logs st @ sanitize_log repl @ lg\<rparr>,
          Some (page_offset lib
                  (write_text lib (apply_redaction lib (doc st) page_index r) page_index
                     (normalize_color (g_color (rep_glyph target)))
                     (layout lib font_obj (g_size (rep_glyph target)) (x0 r) (baseline_y target)
                        (sanitize_unicode_for_pdf repl)))
                  page_index + y1 r))"
  using assms by (simp add: replace_once_def Let_def)

text \<open>
  Claim C9. The string \<^verbatim>\<open>sanitize_unicode_for_pdf\<close> returns contains none of the eight
  mapped code points: it is the input with each of them replaced by its ASCII equivalent
  and every other character unchanged. In \<^verbatim>\<open>_replace_once\<close> the occurrence is located with
  the search string as given, and the characters then written are those of the sanitised
  replacement.
\<close>

theorem sanitize_after_locate:
  "set (sanitize_unicode_for_pdf t) \<inter> mapped_code_points = {}
   \<and> sanitize_unicode_for_pdf t = concat (map ascii_equivalent t)
   \<and> (locate lib (doc st) search last_pos = Some (page_index, r) \<longrightarrow>
      page_glyphs lib (doc st) page_index = Inr glyphs \<longrightarrow>
      filter (\<lambda>g. intersects lib r (g_bbox g)) glyphs = target \<longrightarrow>
      target \<noteq> [] \<longrightarrow>
      get_font lib (font_cache st) (dominant_fontname target) = Inr (font_obj, cache', lg) \<longrightarrow>
      (\<exists>items st' cur.
         replace_once lib st search repl last_pos = Inr (st', cur)
         \<and> doc st' = write_text lib (apply_redaction lib (doc st) page_index r) page_index
                        (normalize_color (g_color (rep_glyph target))) items
         \<and> written_chars items = sanitize_unicode_for_pdf repl))"
proof (intro conjI impI)
  show "set (sanitize_unicode_for_pdf t) \<inter> mapped_code_points = {}" by (rule sanitize_clean)
  show "sanitize_unicode_for_pdf t = concat (map ascii_equivalent t)" by (rule sanitize_concat)
next
  assume "locate lib (doc st) search last_pos = Some (page_index, r)"
    and "page_glyphs lib (doc st) page_index = Inr glyphs"
    and "filter (\<lambda>g. intersects lib r (g_bbox g)) glyphs = target"
    and "target \<noteq> []"
    and "get_font lib (font_cache st) (dominant_fontname target) = Inr (font_obj, cache', lg)"
  from replace_once_drawn [OF this, of repl]
  show "\<exists>items st' cur.
         replace_once lib st search repl last_pos = Inr (st', cur)
         \<and> doc st' = write_text lib (apply_redaction lib (doc st) page_index r) page_index
                        (normalize_color (g_color (rep_glyph target))) items
         \<and> written_chars items = sanitize_unicode_for_pdf repl"
    by (auto simp: written_chars_layout)
qed

text \<open>
  Claim C4, as amended. When the occurrence has been located and no extracted glyph
  intersects its rectangle, \<^verbatim>\<open>_replace_once\<close> leaves the session as it is (no redaction,
  no text written, no log record) and returns the position of the located occurrence,
  its page offset plus the lower edge of its rectangle, which is strictly greater than
  the position it was given, if any.
\<close>

theorem no_target_glyphs:
  assumes "locate lib (doc st) search last_pos = Some (page_index, r)"
    and "page_glyphs lib (doc st) page_index = Inr glyphs"
    and "\<forall>g \<in> set glyphs. \<not> intersects lib r (g_bbox g)"
  shows "replace_once lib st search repl last_pos =
           Inr (st, Some (page_offset lib (doc st) page_index + y1 r))
         \<and> (\<forall>p. last_pos = Some p \<longrightarrow> p < page_offset lib (doc st) page_index + y1 r)"
proof
  from assms(3) have "filter (\<lambda>g. intersects lib r (g_bbox g)) glyphs = []"
    by (simp add: filter_empty_conv)
  with assms(1,2) show "replace_once lib st search repl last_pos =
           Inr (st, Some (page_offset lib (doc st) page_index + y1 r))"
    by (simp add: replace_once_def)
next
  show "\<forall>p. last_pos = Some p \<longrightarrow> p < page_offset lib (doc st) page_index + y1 r"
  proof (intro allI impI)
    fix p assume "last_pos = Some p"
    with assms(1) have "locate_in_pages lib (doc st) search (Some p)
        [0..<page_count lib (doc st)] = Some (page_index, r)"
      by (simp add: locate_def)
    then show "p < page_offset lib (doc st) page_index + y1 r"
      by (rule locate_in_pages_Some)
  qed
qed

section \<open>Font resolution\<close>














section \<open>Evaluation on the concrete documents\<close>

lemmas demo_defs = demo_lib_def two_letters_def no_glyphs_def two_blanks_def blanks_def
  stray_glyph_def box_def one_char_span_def demo_builtin_def demo_lower_def ustr_of_def
  letter_glyph_def new_session_def

lemmas locate_defs = locate_def locate_on_page_def page_offset_def below_def

lemma two_letters_locate_A:
  "locate demo_lib two_letters [65] None = Some (0, box 10 40 20 50)"
  "locate demo_lib two_letters [65] (Some 30) = Some (0, box 10 40 20 50)"
  by (simp_all add: locate_defs demo_defs)

lemma two_letters_locate_B:
  "locate demo_lib two_letters [66] None = Some (0, box 10 10 20 20)"
  "locate demo_lib two_letters [66] (Some 50) = None"
  by (simp_all add: locate_defs demo_defs)

lemma two_letters_position:
  "get_string_last_char_position_pdf demo_lib two_letters [65] (Some 30) = Inr (Some 50)"
  "get_string_last_char_position_pdf demo_lib two_letters [65] None = Inr (Some 50)"
  "get_string_last_char_position_pdf demo_lib two_letters [66] (Some 50) = Inr None"
  "get_string_last_char_position_pdf demo_lib two_letters [32] None = Inr None"
  by (simp_all add: get_string_last_char_position_pdf_def locate_defs demo_defs)

lemma two_letters_glyphs:
  "page_glyphs demo_lib two_letters 0 =
     Inr [letter_glyph 66 (box 10 10 20 20), letter_glyph 65 (box 10 40 20 50)]"
  by (simp add: page_glyphs_def span_glyphs_def demo_defs)

lemma two_letters_targets:
  "filter (\<lambda>g. intersects demo_lib (box 10 40 20 50) (g_bbox g))
     [letter_glyph 66 (box 10 10 20 20), letter_glyph 65 (box 10 40 20 50)] =
   [letter_glyph 65 (box 10 40 20 50)]"
  "filter (\<lambda>g. intersects demo_lib (box 10 10 20 20) (g_bbox g))
     [letter_glyph 66 (box 10 10 20 20), letter_glyph 65 (box 10 40 20 50)] =
   [letter_glyph 66 (box 10 10 20 20)]"
  by (simp_all add: demo_defs)

lemma dominant_single: "dominant_fontname [letter_glyph ch r] = ustr_of ''Helvetica''"
  by (simp add: dominant_fontname_def most_common_font_def letter_glyph_def ustr_of_def)

lemma rep_single: "rep_glyph [letter_glyph ch r] = letter_glyph ch r"
  by (simp add: rep_glyph_def dominant_single)

lemma baseline_single: "baseline_y [letter_glyph ch (box a b c 50)] = 50 - min (max 0 (50 - b - 10) * (18/10)) 2"
  by (simp add: baseline_y_def letter_glyph_def box_def py_max_def py_min_def Let_def checkbox_chars_def split: prod.splits)

lemma helvetica_font:
  "get_font demo_lib Map.empty (ustr_of ''Helvetica'') =
     Inr (FontName (ustr_of ''helv''),
          [ustr_of ''Helvetica'' \<mapsto> FontName (ustr_of ''helv'')],
          [InfoFontMapping (ustr_of ''Helvetica'') (ustr_of ''helv'')])"
  by (simp add: get_font_def pymupdf_font_map_def demo_defs)


lemmas eval_defs = process_pair_def replace_once_def get_string_last_char_position_pdf_def
  locate_defs page_glyphs_def span_glyphs_def get_font_def pymupdf_font_map_def
  dominant_fontname_def most_common_font_def rep_glyph_def baseline_y_def py_max_def py_min_def
  checkbox_chars_def normalize_color_def sanitize_log_def sanitize_concat ascii_equivalent_def
  cursor_of_def Let_def

section \<open>Errors\<close>

lemma span_glyphs_error: "span_glyphs lib sp = Inl e \<Longrightarrow> e = FontError"
  by (auto simp: span_glyphs_def Let_def split: option.splits)

lemma collect_glyphs_error: "collect_glyphs lib sps = Inl e \<Longrightarrow> e = FontError"
  by (induction sps arbitrary: e) (auto split: sum.splits dest: span_glyphs_error)

lemma last_resort_error: "last_resort lib rn = Inl e \<Longrightarrow> e = FontError"
  by (auto simp: last_resort_def split: option.splits)

lemma by_resolved_name_error: "by_resolved_name lib rn = Inl e \<Longrightarrow> e = FontError"
  by (auto simp: by_resolved_name_def Let_def split: option.splits if_splits
      dest: last_resort_error)

lemma via_font_manager_error: "via_font_manager lib name = Inl e \<Longrightarrow> e = FontError"
  by (auto simp: via_font_manager_def Let_def split: prod.splits option.splits sum.splits
      if_splits dest: by_resolved_name_error)

lemma get_font_error: "get_font lib cache name = Inl e \<Longrightarrow> e = FontError"
  by (auto simp: get_font_def split: option.splits sum.splits prod.splits
      dest: via_font_manager_error)

lemma replace_once_error:
  "replace_once lib st search repl last_pos = Inl e \<Longrightarrow> e = FontError"
  by (auto simp: replace_once_def page_glyphs_def Let_def
      split: option.splits sum.splits prod.splits if_splits
      dest: collect_glyphs_error get_font_error)

lemma process_pair_error:
  "fst pair \<noteq> [] \<Longrightarrow> process_pair lib d0 state pair = Inl e \<Longrightarrow> e = FontError"
  by (auto simp: process_pair_def get_string_last_char_position_pdf_def
      split: prod.splits if_splits sum.splits dest: replace_once_error)

lemma driver_loop_error: "driver_loop lib d0 state pairs = Inl e \<Longrightarrow> e = FontError"
  by (induction pairs arbitrary: state)
    (auto split: if_splits sum.splits dest: process_pair_error)

text \<open>
  Claim C6, as amended. \<^verbatim>\<open>get_string_last_char_position_pdf\<close> and
  \<^verbatim>\<open>replace_text_preserve_layout_pdf\<close> raise the error \<^verbatim>\<open>Search string cannot be empty\<close>
  exactly when the search argument is empty (the empty string, or the empty list),
  whatever the document is: the check comes before the document is opened. A search string
  of white space only is not empty and is not rejected.
\<close>

theorem empty_search_rejected:
  "(get_string_last_char_position_pdf lib d s position =
      Inl (ValueError ''Search string cannot be empty'')) = (s = [])
   \<and> (replace_text_preserve_layout_pdf lib d s1 s2 position =
        Inl (ValueError ''Search string cannot be empty'')) = falsy s1
   \<and> falsy (Str s) = (s = [])"
proof (intro conjI)
  show "(get_string_last_char_position_pdf lib d s position =
      Inl (ValueError ''Search string cannot be empty'')) = (s = [])"
    by (simp add: get_string_last_char_position_pdf_def)
  show "(replace_text_preserve_layout_pdf lib d s1 s2 position =
        Inl (ValueError ''Search string cannot be empty'')) = falsy s1"
    by (auto simp: replace_text_preserve_layout_pdf_def split: if_splits
        dest: driver_loop_error)
  show "falsy (Str s) = (s = [])" by (simp add: falsy_def)
qed


section \<open>The claims on concrete documents\<close>

text \<open>
  The sanitiser on a clean string and, twice, on a string with a quotation mark and an ellipsis.
\<close>

theorem sanitize_idempotent_witness:
  "set [72, 105] \<inter> mapped_code_points = {}
   \<and> sanitize_unicode_for_pdf [72, 105] = [72, 105]
   \<and> sanitize_unicode_for_pdf (sanitize_unicode_for_pdf [8220, 72, 8230]) =
       sanitize_unicode_for_pdf [8220, 72, 8230]"
  using sanitize_idempotent [of "[72, 105]"] sanitize_idempotent [of "[8220, 72, 8230]"]
  by (simp add: mapped_code_points_def)

text \<open>
  A checkbox glyph next to a text glyph of size 10 whose box is 12 high: the baseline is
  one unit above the bottom of the text glyph.
\<close>

theorem baseline_as_specified_witness:
  "[letter_glyph 9744 (box 5 5 15 22), letter_glyph 97 (box 0 8 5 20)] \<noteq> []
   \<and> baseline_y [letter_glyph 9744 (box 5 5 15 22), letter_glyph 97 (box 0 8 5 20)] = 19
   \<and> spec_baseline [letter_glyph 9744 (box 5 5 15 22), letter_glyph 97 (box 0 8 5 20)] = 19
   \<and> shift_K True < shift_K False \<and> shift_cap True < shift_cap False"
proof -
  have ne: "[letter_glyph 9744 (box 5 5 15 22), letter_glyph 97 (box 0 8 5 20)] \<noteq> []"
    by simp
  have v: "baseline_y [letter_glyph 9744 (box 5 5 15 22), letter_glyph 97 (box 0 8 5 20)] = 19"
    by (simp add: baseline_y_def py_max_def py_min_def checkbox_chars_def letter_glyph_def
        box_def Let_def)
  from baseline_as_specified [OF ne] v ne show ?thesis by simp
qed

text \<open>
  Five pairs of which one has an empty search line and one a search line that no pair
  changes: the three others are processed.
\<close>

theorem surviving_pairs_processed_witness:
  "\<not> falsy (Lines [[65], [], [67], [66], [66]])
   \<and> length (s1_lines (Lines [[65], [], [67], [66], [66]])
                (Lines [[120], [122], [67], [66], [121]])) =
       length (s2_lines (Lines [[65], [], [67], [66], [66]])
                (Lines [[120], [122], [67], [66], [121]]))
   \<and> surviving_pairs (zip [[65], [], [67], [66], [66]] [[120], [122], [67], [66], [121]]) =
       [([65], [120]), ([66], [66]), ([66], [121])]
   \<and> replace_text_preserve_layout_pdf demo_lib two_letters
         (Lines [[65], [], [67], [66], [66]]) (Lines [[120], [122], [67], [66], [121]]) None =
       process_all demo_lib two_letters (new_session two_letters, None)
         [([65], [120]), ([66], [66]), ([66], [121])]"
proof -
  have nf: "\<not> falsy (Lines [[65], [], [67], [66], [66]])" by (simp add: falsy_def)
  have l1: "s1_lines (Lines [[65], [], [67], [66], [66]])
              (Lines [[120], [122], [67], [66], [121]]) = [[65], [], [67], [66], [66]]"
    and l2: "s2_lines (Lines [[65], [], [67], [66], [66]])
              (Lines [[120], [122], [67], [66], [121]]) = [[120], [122], [67], [66], [121]]"
    by (simp_all add: s1_lines_def s2_lines_def to_lines_def)
  have len: "length (s1_lines (Lines [[65], [], [67], [66], [66]])
                (Lines [[120], [122], [67], [66], [121]])) =
       length (s2_lines (Lines [[65], [], [67], [66], [66]])
                (Lines [[120], [122], [67], [66], [121]]))"
    by (simp add: l1 l2)
  have sv: "surviving_pairs (zip [[65], [], [67], [66], [66]]
               [[120], [122], [67], [66], [121]]) =
       [([65], [120]), ([66], [66]), ([66], [121])]"
    by (simp add: surviving_pairs_def)
  from surviving_pairs_processed [OF nf len, of demo_lib two_letters None] nf len sv
  show ?thesis by (simp add: l1 l2)
qed

text \<open>
  Claim C2 on the page of the two blanks. With no position given,
  \<^verbatim>\<open>get_string_last_char_position_pdf\<close> selects the upper blank, the first rectangle the
  search reports, at 10. The page loop of \<^verbatim>\<open>_replace_once\<close> does not: its line-level
  disambiguation passes over the upper line, which does not begin with the blank, and
  selects the blank of the lower line, at 20. Of the two pairs that replace the blank by
  the letters a and b, the first therefore fills the lower blank, and the second finds no
  blank below 20 and is dropped: the upper blank stays unfilled.
\<close>

theorem line_level_picks_later_line:
  "search_for demo_lib two_blanks 0 blanks = [box 30 0 70 10, box 0 10 40 20]
   \<and> get_string_last_char_position_pdf demo_lib two_blanks blanks None = Inr (Some 10)
   \<and> locate demo_lib two_blanks blanks None = Some (0, box 0 10 40 20)
   \<and> y1 (box 30 0 70 10) < y1 (box 0 10 40 20)
   \<and> locate demo_lib two_blanks blanks (Some 20) = None
   \<and> replace_text_preserve_layout_pdf demo_lib two_blanks
         (Lines [blanks, blanks]) (Lines [[97], [98]]) None =
       Inr (\<lparr>doc = (fst two_blanks,
                    [Redacted 0 (box 0 10 40 20),
                     Written 0 (0, 0, 0) [(0, 20, 97, FontName (ustr_of ''helv''), 10)]]),
             font_cache = [ustr_of ''Helvetica'' \<mapsto> FontName (ustr_of ''helv'')],
             logs = [InfoFontMapping (ustr_of ''Helvetica'') (ustr_of ''helv''),
                     DebugNoMatch blanks]\<rparr>,
            Some 20)"
proof (intro conjI)
  show "search_for demo_lib two_blanks 0 blanks = [box 30 0 70 10, box 0 10 40 20]"
    by (simp add: demo_defs)
  show "get_string_last_char_position_pdf demo_lib two_blanks blanks None = Inr (Some 10)"
    by (simp add: get_string_last_char_position_pdf_def locate_defs demo_defs)
  show "locate demo_lib two_blanks blanks None = Some (0, box 0 10 40 20)"
    by (simp add: locate_defs demo_defs)
  show "y1 (box 30 0 70 10) < y1 (box 0 10 40 20)"
    by (simp add: box_def)
  show "locate demo_lib two_blanks blanks (Some 20) = None"
    by (simp add: locate_defs demo_defs)
  have "zip (cleaned_s1_lines [blanks, blanks] [[97], [98]])
            (cleaned_s2_lines [blanks, blanks] [[97], [98]]) =
          [(blanks, [97]), (blanks, [98])]"
    by (simp add: cleaned_s1_lines_def cleaned_s2_lines_def cleaned_indices_def
        related_lines_def blanks_def)
  then have "replace_text_preserve_layout_pdf demo_lib two_blanks
        (Lines [blanks, blanks]) (Lines [[97], [98]]) None =
      driver_loop demo_lib two_blanks (new_session two_blanks, None)
        [(blanks, [97]), (blanks, [98])]"
    by (simp add: replace_text_preserve_layout_pdf_def falsy_def s1_lines_def s2_lines_def
        to_lines_def)
  also have "\<dots> =
       Inr (\<lparr>doc = (fst two_blanks,
                    [Redacted 0 (box 0 10 40 20),
                     Written 0 (0, 0, 0) [(0, 20, 97, FontName (ustr_of ''helv''), 10)]]),
             font_cache = [ustr_of ''Helvetica'' \<mapsto> FontName (ustr_of ''helv'')],
             logs = [InfoFontMapping (ustr_of ''Helvetica'') (ustr_of ''helv''),
                     DebugNoMatch blanks]\<rparr>,
            Some 20)"
    by (simp add: eval_defs demo_defs)
  finally show "replace_text_preserve_layout_pdf demo_lib two_blanks
         (Lines [blanks, blanks]) (Lines [[97], [98]]) None =
       Inr (\<lparr>doc = (fst two_blanks,
                    [Redacted 0 (box 0 10 40 20),
                     Written 0 (0, 0, 0) [(0, 20, 97, FontName (ustr_of ''helv''), 10)]]),
             font_cache = [ustr_of ''Helvetica'' \<mapsto> FontName (ustr_of ''helv'')],
             logs = [InfoFontMapping (ustr_of ''Helvetica'') (ustr_of ''helv''),
                     DebugNoMatch blanks]\<rparr>,
            Some 20)" .
qed

text \<open>
  Claim C4 as stated fails: on the page whose raw text structure is empty, the call with
  position 30 returns 50, the position of the located occurrence, and writes no log
  record.
\<close>

theorem no_glyphs_cursor_moves:
  "page_glyphs demo_lib no_glyphs 0 = Inr []
   \<and> replace_once demo_lib (new_session no_glyphs) [65] [120] (Some 30) =
       Inr (new_session no_glyphs, Some 50)
   \<and> logs (new_session no_glyphs :: (demo_doc, font_source) session) = []"
  by (simp add: eval_defs demo_defs)

text \<open>
  The page with the stray glyph: the occurrence is located, its rectangle meets no glyph.
\<close>

theorem no_target_glyphs_witness:
  "locate demo_lib (doc (new_session stray_glyph :: (demo_doc, font_source) session))
       [65] (Some 30) = Some (0, box 10 40 20 50)
   \<and> page_glyphs demo_lib (doc (new_session stray_glyph :: (demo_doc, font_source) session)) 0
       = Inr [letter_glyph 65 (box 200 200 210 210)]
   \<and> \<not> intersects demo_lib (box 10 40 20 50) (g_bbox (letter_glyph 65 (box 200 200 210 210)))
   \<and> replace_once demo_lib (new_session stray_glyph) [65] [120] (Some 30) =
       Inr (new_session stray_glyph, Some 50)"
proof -
  have loc: "locate demo_lib (doc (new_session stray_glyph :: (demo_doc, font_source) session))
       [65] (Some 30) = Some (0, box 10 40 20 50)"
    by (simp add: locate_defs demo_defs)
  have gl: "page_glyphs demo_lib
       (doc (new_session stray_glyph :: (demo_doc, font_source) session)) 0
       = Inr [letter_glyph 65 (box 200 200 210 210)]"
    by (simp add: page_glyphs_def span_glyphs_def demo_defs)
  have ni: "\<forall>g \<in> set [letter_glyph 65 (box 200 200 210 210)].
         \<not> intersects demo_lib (box 10 40 20 50) (g_bbox g)"
    by (simp add: demo_defs)
  from ni have ni': "\<not> intersects demo_lib (box 10 40 20 50)
      (g_bbox (letter_glyph 65 (box 200 200 210 210)))"
    by simp
  from no_target_glyphs [OF loc gl ni, of "[120]"] loc gl ni' show ?thesis
    by (simp add: page_offset_def demo_defs)
qed

text \<open>
  Claim C6 as stated fails: a search string that is one space is searched for by both
  functions; neither raises.
\<close>

theorem whitespace_search_accepted:
  "get_string_last_char_position_pdf demo_lib two_letters [32] None = Inr None
   \<and> replace_text_preserve_layout_pdf demo_lib two_letters (Str [32]) (Str [120]) None =
       Inr ((new_session two_letters)\<lparr>logs := [DebugNoMatch [32]]\<rparr>, None)"
  by (simp add: replace_text_preserve_layout_pdf_def falsy_def s1_lines_def s2_lines_def
      multiline_def is_list_def has_newline_def to_lines_def cleaned_s1_lines_def
      cleaned_s2_lines_def cleaned_indices_def related_lines_def eval_defs demo_defs)

text \<open>
  The empty string and the empty list are rejected, the string of one space is not.
\<close>

theorem empty_search_rejected_witness:
  "get_string_last_char_position_pdf demo_lib two_letters [] None =
     Inl (ValueError ''Search string cannot be empty'')
   \<and> replace_text_preserve_layout_pdf demo_lib two_letters (Str []) (Str [120]) None =
       Inl (ValueError ''Search string cannot be empty'')
   \<and> replace_text_preserve_layout_pdf demo_lib two_letters (Lines []) (Lines []) None =
       Inl (ValueError ''Search string cannot be empty'')
   \<and> get_string_last_char_position_pdf demo_lib two_letters [32] None \<noteq>
       Inl (ValueError ''Search string cannot be empty'')"
  using empty_search_rejected [of demo_lib two_letters "[]" None "Str []" "Str [120]"]
    empty_search_rejected [of demo_lib two_letters "[32]" None "Lines []" "Lines []"]
  by (simp add: falsy_def)

text \<open>
  Claim C1 on the page of two letters, with the pairs (A, x), (B, B), (B, y) and no
  starting position: the position is 50 after the first pair, unset after the second
  (B does not occur below 50), and 20 after the third, which replaces the B above the
  A that was replaced first.
\<close>

theorem cursor_falls_back:
  "cursor_of (driver_loop demo_lib two_letters (new_session two_letters, None)
     [([65], [120])]) = Inr (Some 50)
   \<and> cursor_of (driver_loop demo_lib two_letters (new_session two_letters, None)
     [([65], [120]), ([66], [66])]) = Inr None
   \<and> cursor_of (driver_loop demo_lib two_letters (new_session two_letters, None)
     [([65], [120]), ([66], [66]), ([66], [121])]) = Inr (Some 20)
   \<and> cursor_of (replace_text_preserve_layout_pdf demo_lib two_letters
        (Lines [[65], [66], [66]]) (Lines [[120], [66], [121]]) None) = Inr (Some 20)"
proof (intro conjI)
  show "cursor_of (driver_loop demo_lib two_letters (new_session two_letters, None)
     [([65], [120])]) = Inr (Some 50)"
    by (simp add: eval_defs demo_defs)
  show "cursor_of (driver_loop demo_lib two_letters (new_session two_letters, None)
     [([65], [120]), ([66], [66])]) = Inr None"
    by (simp add: eval_defs demo_defs)
  show three: "cursor_of (driver_loop demo_lib two_letters (new_session two_letters, None)
     [([65], [120]), ([66], [66]), ([66], [121])]) = Inr (Some 20)"
    by (simp add: eval_defs demo_defs)
  have "zip (cleaned_s1_lines [[65], [66], [66]] [[120], [66], [121]])
            (cleaned_s2_lines [[65], [66], [66]] [[120], [66], [121]]) =
          [([65], [120]), ([66], [66]), ([66], [121])]"
    by (simp add: cleaned_s1_lines_def cleaned_s2_lines_def cleaned_indices_def
        related_lines_def)
  then have "replace_text_preserve_layout_pdf demo_lib two_letters
        (Lines [[65], [66], [66]]) (Lines [[120], [66], [121]]) None =
      driver_loop demo_lib two_letters (new_session two_letters, None)
        [([65], [120]), ([66], [66]), ([66], [121])]"
    by (simp add: replace_text_preserve_layout_pdf_def falsy_def s1_lines_def s2_lines_def
        to_lines_def)
  with three show "cursor_of (replace_text_preserve_layout_pdf demo_lib two_letters
        (Lines [[65], [66], [66]]) (Lines [[120], [66], [121]]) None) = Inr (Some 20)"
    by simp
qed

text \<open>
  Claim C3 on the page of two letters, from position 50, below which B does not occur:
  the locate-only pair (B, B) leaves the position unset and writes no log record, while
  the replacing pair (B, y) keeps the position 50 and writes the debug record. With both
  pairs in this order and the starting position 50, the second pair therefore replaces
  the B at 20, above the starting position.
\<close>

theorem locate_only_resets_cursor:
  "process_pair demo_lib two_letters (new_session two_letters, Some 50) ([66], [66]) =
     Inr (new_session two_letters, None)
   \<and> process_pair demo_lib two_letters (new_session two_letters, Some 50) ([66], [121]) =
     Inr ((new_session two_letters)\<lparr>logs := [DebugNoMatch [66]]\<rparr>, Some 50)
   \<and> cursor_of (replace_text_preserve_layout_pdf demo_lib two_letters
        (Lines [[66], [66]]) (Lines [[66], [121]]) (Some 50)) = Inr (Some 20)"
  by (simp add: replace_text_preserve_layout_pdf_def falsy_def s1_lines_def s2_lines_def
      to_lines_def cleaned_s1_lines_def cleaned_s2_lines_def cleaned_indices_def
      related_lines_def eval_defs demo_defs)

text \<open>
  The letter A is located and replaced by a quotation mark and the letter x: the
  characters written are the ASCII quotation mark and the x.
\<close>

theorem sanitize_after_locate_witness:
  "sanitize_unicode_for_pdf [8220, 120, 8230] = [34, 120, 46, 46, 46]
   \<and> set (sanitize_unicode_for_pdf [8220, 120, 8230]) \<inter> mapped_code_points = {}
   \<and> locate demo_lib (doc (new_session two_letters :: (demo_doc, font_source) session))
        [65] None = Some (0, box 10 40 20 50)
   \<and> [letter_glyph 65 (box 10 40 20 50)] \<noteq> []
   \<and> (\<exists>items st' cur.
         replace_once demo_lib (new_session two_letters) [65] [8220, 120] None = Inr (st', cur)
         \<and> doc st' = write_text demo_lib
                        (apply_redaction demo_lib
                           (doc (new_session two_letters :: (demo_doc, font_source) session))
                           0 (box 10 40 20 50))
                        0 (normalize_color (g_color (rep_glyph [letter_glyph 65 (box 10 40 20 50)])))
                        items
         \<and> written_chars items = [34, 120])"
proof -
  have loc: "locate demo_lib (doc (new_session two_letters :: (demo_doc, font_source) session))
               [65] None = Some (0, box 10 40 20 50)"
    by (simp add: new_session_def two_letters_locate_A)
  have gl: "page_glyphs demo_lib
              (doc (new_session two_letters :: (demo_doc, font_source) session)) 0 =
              Inr [letter_glyph 66 (box 10 10 20 20), letter_glyph 65 (box 10 40 20 50)]"
    by (simp add: new_session_def two_letters_glyphs)
  have ne: "[letter_glyph 65 (box 10 40 20 50)] \<noteq> []" by simp
  have ft: "get_font demo_lib
              (font_cache (new_session two_letters :: (demo_doc, font_source) session))
              (dominant_fontname [letter_glyph 65 (box 10 40 20 50)]) =
            Inr (FontName (ustr_of ''helv''),
                 [ustr_of ''Helvetica'' \<mapsto> FontName (ustr_of ''helv'')],
                 [InfoFontMapping (ustr_of ''Helvetica'') (ustr_of ''helv'')])"
    by (simp add: new_session_def dominant_single helvetica_font)
  have san: "sanitize_unicode_for_pdf [8220, 120, 8230] = [34, 120, 46, 46, 46]"
    "sanitize_unicode_for_pdf [8220, 120] = [34, 120]"
    by (simp_all add: sanitize_concat ascii_equivalent_def)
  note w = sanitize_after_locate [of "[8220, 120, 8230]" demo_lib "new_session two_letters"
      "[65]" None 0 "box 10 40 20 50" _ _ _ _ _ "[8220, 120]"]
  from w have clean: "set (sanitize_unicode_for_pdf [8220, 120, 8230]) \<inter> mapped_code_points = {}"
    by blast
  from w loc gl two_letters_targets(1) ne ft
  have "\<exists>items st' cur.
         replace_once demo_lib (new_session two_letters) [65] [8220, 120] None = Inr (st', cur)
         \<and> doc st' = write_text demo_lib
                        (apply_redaction demo_lib
                           (doc (new_session two_letters :: (demo_doc, font_source) session))
                           0 (box 10 40 20 50))
                        0 (normalize_color (g_color (rep_glyph [letter_glyph 65 (box 10 40 20 50)])))
                        items
         \<and> written_chars items = sanitize_unicode_for_pdf [8220, 120]"
    by blast
  with san clean loc ne show ?thesis by simp
qed


end
